theory Spec2Isabelle
  imports Complex_Main "HOL-Library.AList"
begin

section \<open>JavaScript values\<close>

text \<open>
  The module \<^verbatim>\<open>src/lib/walletApi.js\<close> forwards values between its callers and the
  backend client and never computes with them. A value is a JSON value, or
  \<^verbatim>\<open>undefined\<close> (an omitted argument, a missing property), or \<^verbatim>\<open>NaN\<close>. Numbers are
  only ever tested for truthiness, so a finite number is kept as a rational. A string is
  kept as the UTF-8 bytes of its text, which for the names and messages of the module are
  their ASCII characters and for the one non-ASCII literal (the default description) the
  bytes of the source file. An object is the list of its own enumerable properties in
  enumeration order.
\<close>

datatype jsval =
    JUndefined
  | JNull
  | JBool bool
  | JNum rat
  | JNaN
  | JStr string
  | JArr "jsval list"
  | JObj "(string \<times> jsval) list"

text \<open>What a \<^verbatim>\<open>throw\<close> carries: a value, or the \<^verbatim>\<open>TypeError\<close> the runtime raises when a
  property of \<^verbatim>\<open>null\<close> or \<^verbatim>\<open>undefined\<close> is read.\<close>

datatype thrown = Value jsval | TypeError

type_synonym result = "thrown + jsval"

text \<open>\<^verbatim>\<open>if (v)\<close>: the falsy values are \<^verbatim>\<open>undefined\<close>, \<^verbatim>\<open>null\<close>, \<^verbatim>\<open>false\<close>, \<^verbatim>\<open>0\<close>, \<^verbatim>\<open>NaN\<close>
  and the empty string; arrays and objects are truthy, also when empty.\<close>

fun truthy :: "jsval \<Rightarrow> bool" where
  "truthy JUndefined = False"
| "truthy JNull = False"
| "truthy (JBool b) = b"
| "truthy (JNum n) = (n \<noteq> 0)"
| "truthy JNaN = False"
| "truthy (JStr s) = (s \<noteq> [])"
| "truthy (JArr xs) = True"
| "truthy (JObj kvs) = True"

text \<open>\<^verbatim>\<open>a || b\<close>\<close>

definition js_or :: "jsval \<Rightarrow> jsval \<Rightarrow> jsval" where
  "js_or a b = (if truthy a then a else b)"

text \<open>A parameter default \<^verbatim>\<open>(x = d)\<close>: taken only when the argument is \<^verbatim>\<open>undefined\<close>.\<close>

definition default_param :: "jsval \<Rightarrow> jsval \<Rightarrow> jsval" where
  "default_param x d = (if x = JUndefined then d else x)"

text \<open>The value of property \<^verbatim>\<open>k\<close> of an object with the properties \<^verbatim>\<open>kvs\<close>: \<^verbatim>\<open>undefined\<close>
  when the object has no such property.\<close>

definition prop_of :: "(string \<times> jsval) list \<Rightarrow> string \<Rightarrow> jsval" where
  "prop_of kvs k = (case map_of kvs k of None \<Rightarrow> JUndefined | Some v \<Rightarrow> v)"

text \<open>\<^verbatim>\<open>v.k\<close> for the names the module reads (\<^verbatim>\<open>settings\<close>, \<^verbatim>\<open>payment\<close>, \<^verbatim>\<open>id\<close>, \<^verbatim>\<open>limit\<close>,
  \<^verbatim>\<open>offset\<close>, \<^verbatim>\<open>type\<close>, \<^verbatim>\<open>status\<close>): a \<^verbatim>\<open>TypeError\<close> on \<^verbatim>\<open>null\<close> and \<^verbatim>\<open>undefined\<close>, the
  property's value on an object, \<^verbatim>\<open>undefined\<close> on any other value (none of these names
  is an index or a built-in property of a string, an array, a number or a boolean).\<close>

fun get_prop :: "jsval \<Rightarrow> string \<Rightarrow> result" where
  "get_prop JUndefined k = Inl TypeError"
| "get_prop JNull k = Inl TypeError"
| "get_prop (JObj kvs) k = Inr (prop_of kvs k)"
| "get_prop v k = Inr JUndefined"

text \<open>Decimal rendering of an index, for the property names of arrays and strings.\<close>

fun show_nat :: "nat \<Rightarrow> string" where
  "show_nat n =
     (if n < 10 then [char_of (48 + n)]
      else show_nat (n div 10) @ [char_of (48 + n mod 10)])"

text \<open>The UTF-16 code units of a string, each as the string that holds it alone: a spread
  copies a string one code unit at a time. A UTF-8 sequence of one, two or three bytes is
  one code unit; a sequence of four bytes is a character beyond the basic plane and two
  code units, its high and its low surrogate, each written as the three bytes that
  generalised UTF-8 gives a lone surrogate.\<close>

definition sequence_length :: "char \<Rightarrow> nat" where
  "sequence_length c =
     (let n = of_char c :: nat in
      if n < 192 then 1 else if n < 224 then 2 else if n < 240 then 3 else 4)"

definition surrogate :: "nat \<Rightarrow> string" where
  "surrogate u =
     [char_of (224 + u div 4096), char_of (128 + (u div 64) mod 64), char_of (128 + u mod 64)]"

fun sequence_units :: "string \<Rightarrow> string list" where
  "sequence_units [a, b, c, d] =
     (let v = (of_char a mod 8) * 262144 + (of_char b mod 64) * 4096 +
              (of_char c mod 64) * 64 + of_char d mod 64 - (65536::nat)
      in [surrogate (55296 + v div 1024), surrogate (56320 + v mod 1024)])"
| "sequence_units bs = [bs]"

fun code_units :: "string \<Rightarrow> string list" where
  "code_units [] = []"
| "code_units (c # cs) =
     sequence_units (take (sequence_length c) (c # cs)) @
     code_units (drop (sequence_length c - 1) cs)"

text \<open>The own enumerable properties that a spread \<^verbatim>\<open>{...v}\<close> copies: those of an object,
  the indexed elements of an array, the indexed code units of a string, and none for any
  other value.\<close>

fun own_props :: "jsval \<Rightarrow> (string \<times> jsval) list" where
  "own_props (JObj kvs) = kvs"
| "own_props (JArr xs) = zip (map show_nat [0..<length xs]) xs"
| "own_props (JStr s) =
     zip (map show_nat [0..<length (code_units s)]) (map JStr (code_units s))"
| "own_props v = []"

text \<open>\<^verbatim>\<open>{...v, k: x}\<close>: the copied properties, with \<^verbatim>\<open>k\<close> set to \<^verbatim>\<open>x\<close>; a property that
  exists keeps its place, a new one goes last.\<close>

definition spread_with :: "jsval \<Rightarrow> string \<Rightarrow> jsval \<Rightarrow> jsval" where
  "spread_with v k x = JObj (AList.update k x (own_props v))"

section \<open>The backend client and the world\<close>

text \<open>
  The imported \<^verbatim>\<open>supabase\<close> client is the module's only collaborator. Each awaited call
  is one request and resolves to an object \<^verbatim>\<open>{ data, error }\<close>, which the module takes
  apart; a failure is a truthy \<^verbatim>\<open>error\<close>, as every \<^verbatim>\<open>if (error) throw error\<close> of the
  module reads it. The client is a parameter of every operation: a function from the
  backend's state and a request to the response and the backend's next state, so that
  nothing is assumed about what the backend answers or how it changes.
\<close>

datatype request =
    Rpc string jsval
    \<comment> \<open>\<^verbatim>\<open>supabase.rpc(name, args)\<close>; \<^verbatim>\<open>args\<close> is \<^verbatim>\<open>undefined\<close> when omitted\<close>
  | Select string string
    \<comment> \<open>\<^verbatim>\<open>supabase.from(table).select(columns)\<close>\<close>
  | SelectSingle string string
    \<comment> \<open>\<^verbatim>\<open>supabase.from(table).select(columns).single()\<close>\<close>
  | Update string jsval string jsval
    \<comment> \<open>\<^verbatim>\<open>supabase.from(table).update(values).eq(column, value)\<close>\<close>

record response =
  data :: jsval
  error :: jsval

type_synonym 'b client = "'b \<Rightarrow> request \<Rightarrow> response \<times> 'b"

text \<open>The world an operation runs in: the backend's state, the requests sent so far
  (oldest first) and the lines written by \<^verbatim>\<open>console.error\<close> (oldest first).\<close>

record 'b world =
  backend :: 'b
  trace :: "request list"
  console :: "(string \<times> thrown) list"

definition await :: "'b client \<Rightarrow> request \<Rightarrow> 'b world \<Rightarrow> response \<times> 'b world" where
  "await supabase rq w =
     (case supabase (backend w) rq of
        (r, b) \<Rightarrow> (r, w\<lparr>backend := b, trace := trace w @ [rq]\<rparr>))"

definition console_error :: "string \<Rightarrow> thrown \<Rightarrow> 'b world \<Rightarrow> 'b world" where
  "console_error msg e w = w\<lparr>console := console w @ [(msg, e)]\<rparr>"

text \<open>\<^verbatim>\<open>try { body } catch (error) { console.error(msg, error); throw error; }\<close>\<close>

definition catch_log :: "string \<Rightarrow> result \<times> 'b world \<Rightarrow> result \<times> 'b world" where
  "catch_log msg res =
     (case res of
        (Inl e, w) \<Rightarrow> (Inl e, console_error msg e w)
      | (Inr v, w) \<Rightarrow> (Inr v, w))"

text \<open>\<^verbatim>\<open>const { data, error } = await supabase.rpc(name, args); if (error) throw error;
  return data;\<close>\<close>

definition rpc_data :: "'b client \<Rightarrow> string \<Rightarrow> jsval \<Rightarrow> 'b world \<Rightarrow> result \<times> 'b world" where
  "rpc_data supabase name args w =
     (case await supabase (Rpc name args) w of
        (r, w1) \<Rightarrow> if truthy (error r) then (Inl (Value (error r)), w1) else (Inr (data r), w1))"

section \<open>The operations\<close>

definition getWalletBalance :: "'b client \<Rightarrow> jsval \<Rightarrow> 'b world \<Rightarrow> result \<times> 'b world" where
  "getWalletBalance supabase userId w =
     catch_log ''Error fetching wallet balance:''
       (rpc_data supabase ''get_wallet_balance'' (JObj [(''p_user_id'', userId)]) w)"

definition getWalletTransactions ::
  "'b client \<Rightarrow> jsval \<Rightarrow> jsval \<Rightarrow> 'b world \<Rightarrow> result \<times> 'b world" where
  "getWalletTransactions supabase walletId options0 w =
     catch_log ''Error fetching wallet transactions:''
       (let options = default_param options0 (JObj []) in
        case get_prop options ''limit'' of Inl e \<Rightarrow> (Inl e, w) | Inr limit \<Rightarrow>
       (case get_prop options ''offset'' of Inl e \<Rightarrow> (Inl e, w) | Inr offset \<Rightarrow>
       (case get_prop options ''type'' of Inl e \<Rightarrow> (Inl e, w) | Inr type \<Rightarrow>
       (case get_prop options ''status'' of Inl e \<Rightarrow> (Inl e, w) | Inr status \<Rightarrow>
          rpc_data supabase ''get_wallet_transactions''
            (JObj [(''p_wallet_id'', walletId),
                   (''p_limit'', js_or limit (JNum 10)),
                   (''p_offset'', js_or offset (JNum 0)),
                   (''p_type'', js_or type JNull),
                   (''p_status'', js_or status JNull)]) w))))"

definition getVendorWallets :: "'b client \<Rightarrow> 'b world \<Rightarrow> result \<times> 'b world" where
  "getVendorWallets supabase w =
     catch_log ''Error fetching vendor wallets:''
       (case await supabase (Rpc ''get_all_vendor_wallets'' JUndefined) w of
          (r, w1) \<Rightarrow>
            if truthy (error r) then
              (case await supabase (Select ''vendor_wallets'' ''*'')
                      (console_error ''Error using RPC function:'' (Value (error r)) w1) of
                 (vendor, w2) \<Rightarrow>
                   if truthy (error vendor) then (Inl (Value (error vendor)), w2)
                   else (Inr (js_or (data vendor) (JArr [])), w2))
            else (Inr (js_or (data r) (JArr [])), w1))"

definition getDriverWallets :: "'b client \<Rightarrow> 'b world \<Rightarrow> result \<times> 'b world" where
  "getDriverWallets supabase w =
     catch_log ''Error fetching driver wallets:''
       (case await supabase (Rpc ''get_all_driver_wallets'' JUndefined) w of
          (r, w1) \<Rightarrow>
            if truthy (error r) then
              (case await supabase (Select ''driver_wallets'' ''*'')
                      (console_error ''Error using RPC function:'' (Value (error r)) w1) of
                 (driver, w2) \<Rightarrow>
                   if truthy (error driver) then (Inl (Value (error driver)), w2)
                   else (Inr (js_or (data driver) (JArr [])), w2))
            else (Inr (js_or (data r) (JArr [])), w1))"

text \<open>The default description of a charge, the literal of lines 108 and 134 (Arabic for
  "balance top-up"), as the bytes of the source file.\<close>

definition default_description :: string where
  "default_description =
     [CHR 0xD8, CHR 0xB4, CHR 0xD8, CHR 0xAD, CHR 0xD9, CHR 0x86, CHR 0x20,
      CHR 0xD8, CHR 0xB1, CHR 0xD8, CHR 0xB5, CHR 0xD9, CHR 0x8A, CHR 0xD8, CHR 0xAF]"

definition chargeVendorWallet ::
  "'b client \<Rightarrow> jsval \<Rightarrow> jsval \<Rightarrow> jsval \<Rightarrow> 'b world \<Rightarrow> result \<times> 'b world" where
  "chargeVendorWallet supabase vendorId amount description w =
     catch_log ''Error charging vendor wallet:''
       (rpc_data supabase ''charge_vendor_wallet''
          (JObj [(''p_vendor_id'', vendorId),
                 (''p_amount'', amount),
                 (''p_description'', default_param description (JStr default_description))]) w)"

definition chargeDriverWallet ::
  "'b client \<Rightarrow> jsval \<Rightarrow> jsval \<Rightarrow> jsval \<Rightarrow> 'b world \<Rightarrow> result \<times> 'b world" where
  "chargeDriverWallet supabase driverId amount description w =
     catch_log ''Error charging driver wallet:''
       (rpc_data supabase ''charge_driver_wallet''
          (JObj [(''p_driver_id'', driverId),
                 (''p_amount'', amount),
                 (''p_description'', default_param description (JStr default_description))]) w)"

definition getFinancialStats :: "'b client \<Rightarrow> 'b world \<Rightarrow> result \<times> 'b world" where
  "getFinancialStats supabase w =
     catch_log ''Error fetching financial stats:''
       (rpc_data supabase ''get_financial_summary'' JUndefined w)"

definition getPaymentSettings :: "'b client \<Rightarrow> 'b world \<Rightarrow> result \<times> 'b world" where
  "getPaymentSettings supabase w =
     catch_log ''Error fetching payment settings:''
       (case await supabase (SelectSingle ''app_settings'' ''settings'') w of
          (r, w1) \<Rightarrow>
            if truthy (error r) then (Inl (Value (error r)), w1)
            else
              (case get_prop (data r) ''settings'' of
                 Inl e \<Rightarrow> (Inl e, w1)
               | Inr settings \<Rightarrow>
                  (case get_prop settings ''payment'' of
                     Inl e \<Rightarrow> (Inl e, w1)
                   | Inr payment \<Rightarrow> (Inr (js_or payment (JObj [])), w1))))"

definition updatePaymentSettings :: "'b client \<Rightarrow> jsval \<Rightarrow> 'b world \<Rightarrow> result \<times> 'b world" where
  "updatePaymentSettings supabase settings w =
     catch_log ''Error updating payment settings:''
       (case await supabase (SelectSingle ''app_settings'' ''settings'') w of
          (current, w1) \<Rightarrow>
            if truthy (error current) then (Inl (Value (error current)), w1)
            else
              (case get_prop (data current) ''settings'' of
                 Inl e \<Rightarrow> (Inl e, w1)
               | Inr currentSettings \<Rightarrow>
                  (case get_prop (data current) ''id'' of
                     Inl e \<Rightarrow> (Inl e, w1)
                   | Inr currentId \<Rightarrow>
                      (case await supabase
                              (Update ''app_settings''
                                 (JObj [(''settings'',
                                         spread_with currentSettings ''payment'' settings)])
                                 ''id'' currentId) w1 of
                         (r, w2) \<Rightarrow>
                           if truthy (error r) then (Inl (Value (error r)), w2)
                           else (Inr (JBool True), w2)))))"

definition getVendorWallet :: "'b client \<Rightarrow> jsval \<Rightarrow> 'b world \<Rightarrow> result \<times> 'b world" where
  "getVendorWallet supabase vendorId w =
     catch_log ''Error fetching vendor wallet:''
       (rpc_data supabase ''get_vendor_wallet'' (JObj [(''p_vendor_id'', vendorId)]) w)"

definition getDriverWallet :: "'b client \<Rightarrow> jsval \<Rightarrow> 'b world \<Rightarrow> result \<times> 'b world" where
  "getDriverWallet supabase driverId w =
     catch_log ''Error fetching driver wallet:''
       (rpc_data supabase ''get_driver_wallet'' (JObj [(''p_driver_id'', driverId)]) w)"

section \<open>A scripted client\<close>

text \<open>A client for concrete runs: its state is the list of responses still to be given,
  one per request, in order; once the list is used up every request is answered with an
  error.\<close>

fun scripted :: "response list client" where
  "scripted [] rq = (\<lparr>data = JNull, error = JStr ''no response scripted''\<rparr>, [])"
| "scripted (r # rs) rq = (r, rs)"

definition fresh :: "'b \<Rightarrow> 'b world" where
  "fresh b = \<lparr>backend = b, trace = [], console = []\<rparr>"

definition ok :: "jsval \<Rightarrow> response" where
  "ok v = \<lparr>data = v, error = JNull\<rparr>"

definition failed :: "jsval \<Rightarrow> response" where
  "failed e = \<lparr>data = JNull, error = e\<rparr>"

section \<open>One awaited call\<close>

lemma await_eq:
  "supabase (backend w) rq = (r, b) \<Longrightarrow>
   await supabase rq w = (r, w\<lparr>backend := b, trace := trace w @ [rq]\<rparr>)"
  by (simp add: await_def)

lemma rpc_success:
  assumes "supabase (backend w) (Rpc name args) = (r, b)" and "\<not> truthy (error r)"
  shows "catch_log msg (rpc_data supabase name args w) =
           (Inr (data r), w\<lparr>backend := b, trace := trace w @ [Rpc name args]\<rparr>)"
  using assms by (simp add: rpc_data_def await_eq catch_log_def)

lemma rpc_failure:
  assumes "supabase (backend w) (Rpc name args) = (r, b)" and "truthy (error r)"
  shows "catch_log msg (rpc_data supabase name args w) =
           (Inl (Value (error r)),
            w\<lparr>backend := b, trace := trace w @ [Rpc name args],
              console := console w @ [(msg, Value (error r))]\<rparr>)"
  using assms by (simp add: rpc_data_def await_eq catch_log_def console_error_def)

lemma rpc_trace:
  "trace (snd (catch_log msg (rpc_data supabase name args w))) = trace w @ [Rpc name args]"
  by (simp add: rpc_data_def await_def catch_log_def console_error_def split: prod.splits)

lemma getWalletTransactions_omitted_options:
  "getWalletTransactions supabase walletId JUndefined w =
     getWalletTransactions supabase walletId (JObj []) w"
  by (simp add: getWalletTransactions_def default_param_def)

lemma getWalletTransactions_object:
  "getWalletTransactions supabase walletId (JObj kvs) w =
     catch_log ''Error fetching wallet transactions:''
       (rpc_data supabase ''get_wallet_transactions''
          (JObj [(''p_wallet_id'', walletId),
                 (''p_limit'', js_or (prop_of kvs ''limit'') (JNum 10)),
                 (''p_offset'', js_or (prop_of kvs ''offset'') (JNum 0)),
                 (''p_type'', js_or (prop_of kvs ''type'') JNull),
                 (''p_status'', js_or (prop_of kvs ''status'') JNull)]) w)"
  by (simp add: getWalletTransactions_def default_param_def)

section \<open>Request shaping\<close>

text \<open>Pagination defaults (C7): with the empty options object, the one request sent is
  the procedure \<^verbatim>\<open>get_wallet_transactions\<close> with wallet id \<^verbatim>\<open>"W1"\<close>, limit 10, offset 0,
  and \<^verbatim>\<open>null\<close> for the type and the status, whatever the backend and the world are.\<close>

theorem getWalletTransactions_defaults:
  "trace (snd (getWalletTransactions supabase (JStr ''W1'') (JObj []) w)) =
     trace w @
     [Rpc ''get_wallet_transactions''
        (JObj [(''p_wallet_id'', JStr ''W1''), (''p_limit'', JNum 10), (''p_offset'', JNum 0),
               (''p_type'', JNull), (''p_status'', JNull)])]"
  by (simp add: getWalletTransactions_def default_param_def prop_of_def js_or_def rpc_data_def
      await_def catch_log_def console_error_def split: prod.splits)

text \<open>Charge with the default description (C8): \<^verbatim>\<open>chargeVendorWallet("V1", 50)\<close>, the
  description omitted, sends the procedure \<^verbatim>\<open>charge_vendor_wallet\<close> with vendor id
  \<^verbatim>\<open>"V1"\<close>, amount 50 and the default description, the Arabic literal of line 108 whose
  UTF-8 bytes are \<^verbatim>\<open>d8 b4 d8 ad d9 86 20 d8 b1 d8 b5 d9 8a d8 af\<close>, and when the backend
  reports no error it returns the backend's payload.\<close>

theorem chargeVendorWallet_default_description:
  assumes "supabase (backend w)
             (Rpc ''charge_vendor_wallet''
                (JObj [(''p_vendor_id'', JStr ''V1''), (''p_amount'', JNum 50),
                       (''p_description'',
                        JStr [CHR 0xD8, CHR 0xB4, CHR 0xD8, CHR 0xAD, CHR 0xD9, CHR 0x86, CHR 0x20,
                              CHR 0xD8, CHR 0xB1, CHR 0xD8, CHR 0xB5, CHR 0xD9, CHR 0x8A, CHR 0xD8,
                              CHR 0xAF])])) = (r, b)"
  shows "trace (snd (chargeVendorWallet supabase (JStr ''V1'') (JNum 50) JUndefined w)) =
           trace w @
           [Rpc ''charge_vendor_wallet''
              (JObj [(''p_vendor_id'', JStr ''V1''), (''p_amount'', JNum 50),
                     (''p_description'',
                      JStr [CHR 0xD8, CHR 0xB4, CHR 0xD8, CHR 0xAD, CHR 0xD9, CHR 0x86, CHR 0x20,
                              CHR 0xD8, CHR 0xB1, CHR 0xD8, CHR 0xB5, CHR 0xD9, CHR 0x8A, CHR 0xD8,
                              CHR 0xAF])])] \<and>
         (\<not> truthy (error r) \<longrightarrow>
            fst (chargeVendorWallet supabase (JStr ''V1'') (JNum 50) JUndefined w) = Inr (data r))"
  using assms
  by (simp add: chargeVendorWallet_def default_param_def default_description_def rpc_trace
      rpc_success)

theorem chargeVendorWallet_default_description_witness:
  "scripted [ok (JObj [(''transaction_id'', JStr ''T1'')])]
     (Rpc ''charge_vendor_wallet''
        (JObj [(''p_vendor_id'', JStr ''V1''), (''p_amount'', JNum 50),
               (''p_description'',
                JStr [CHR 0xD8, CHR 0xB4, CHR 0xD8, CHR 0xAD, CHR 0xD9, CHR 0x86, CHR 0x20,
                              CHR 0xD8, CHR 0xB1, CHR 0xD8, CHR 0xB5, CHR 0xD9, CHR 0x8A, CHR 0xD8,
                              CHR 0xAF])])) =
     (ok (JObj [(''transaction_id'', JStr ''T1'')]), []) \<and>
   \<not> truthy (error (ok (JObj [(''transaction_id'', JStr ''T1'')]))) \<and>
   trace (snd (chargeVendorWallet scripted (JStr ''V1'') (JNum 50) JUndefined
                 (fresh [ok (JObj [(''transaction_id'', JStr ''T1'')])]))) =
     [Rpc ''charge_vendor_wallet''
        (JObj [(''p_vendor_id'', JStr ''V1''), (''p_amount'', JNum 50),
               (''p_description'',
                JStr [CHR 0xD8, CHR 0xB4, CHR 0xD8, CHR 0xAD, CHR 0xD9, CHR 0x86, CHR 0x20,
                              CHR 0xD8, CHR 0xB1, CHR 0xD8, CHR 0xB5, CHR 0xD9, CHR 0x8A, CHR 0xD8,
                              CHR 0xAF])])] \<and>
   fst (chargeVendorWallet scripted (JStr ''V1'') (JNum 50) JUndefined
          (fresh [ok (JObj [(''transaction_id'', JStr ''T1'')])])) =
     Inr (JObj [(''transaction_id'', JStr ''T1'')])"
  using chargeVendorWallet_default_description
    [of scripted "fresh [ok (JObj [(''transaction_id'', JStr ''T1'')])]"
        "ok (JObj [(''transaction_id'', JStr ''T1'')])" "[]"]
  by (simp add: fresh_def ok_def)

text \<open>Falsy options (C9): with an options object, the request carries the wallet id and
  the four filters, and each of \<^verbatim>\<open>limit\<close>, \<^verbatim>\<open>offset\<close>, \<^verbatim>\<open>type\<close>, \<^verbatim>\<open>status\<close> whose value is
  falsy (absent, or present as \<^verbatim>\<open>0\<close>, \<^verbatim>\<open>""\<close>, \<^verbatim>\<open>null\<close>, \<^verbatim>\<open>false\<close>, \<^verbatim>\<open>NaN\<close>) is sent as its
  default: a limit of 0 goes out as 10.\<close>

theorem getWalletTransactions_falsy_is_default:
  "\<exists>l off t s.
     trace (snd (getWalletTransactions supabase walletId (JObj kvs) w)) =
       trace w @
       [Rpc ''get_wallet_transactions''
          (JObj [(''p_wallet_id'', walletId), (''p_limit'', l), (''p_offset'', off),
                 (''p_type'', t), (''p_status'', s)])] \<and>
     (\<not> truthy (prop_of kvs ''limit'') \<longrightarrow> l = JNum 10) \<and>
     (\<not> truthy (prop_of kvs ''offset'') \<longrightarrow> off = JNum 0) \<and>
     (\<not> truthy (prop_of kvs ''type'') \<longrightarrow> t = JNull) \<and>
     (\<not> truthy (prop_of kvs ''status'') \<longrightarrow> s = JNull)"
  by (simp add: getWalletTransactions_object rpc_trace js_or_def)

theorem getWalletTransactions_falsy_is_default_witness:
  "\<not> truthy (prop_of [(''limit'', JNum 0)] ''limit'') \<and>
   \<not> truthy (prop_of [(''limit'', JNum 0)] ''offset'') \<and>
   \<not> truthy (prop_of [(''limit'', JNum 0)] ''type'') \<and>
   \<not> truthy (prop_of [(''limit'', JNum 0)] ''status'') \<and>
   trace (snd (getWalletTransactions scripted (JStr ''W1'') (JObj [(''limit'', JNum 0)])
                 (fresh []))) =
     [Rpc ''get_wallet_transactions''
        (JObj [(''p_wallet_id'', JStr ''W1''), (''p_limit'', JNum 10), (''p_offset'', JNum 0),
               (''p_type'', JNull), (''p_status'', JNull)])]"
  using getWalletTransactions_falsy_is_default
    [of scripted "JStr ''W1''" "[(''limit'', JNum 0)]" "fresh []"]
  by (auto simp add: fresh_def prop_of_def)

section \<open>Payment settings\<close>

text \<open>No payment section (C10): when the settings row is fetched without error and its
  \<^verbatim>\<open>settings\<close> object has no \<^verbatim>\<open>payment\<close> property, \<^verbatim>\<open>getPaymentSettings\<close> returns the
  empty object; it neither fails nor logs.\<close>

theorem getPaymentSettings_without_payment:
  assumes "supabase (backend w) (SelectSingle ''app_settings'' ''settings'') = (r, b)"
    and "\<not> truthy (error r)"
    and "data r = JObj row"
    and "map_of row ''settings'' = Some (JObj sections)"
    and "map_of sections ''payment'' = None"
  shows "getPaymentSettings supabase w =
           (Inr (JObj []),
            w\<lparr>backend := b, trace := trace w @ [SelectSingle ''app_settings'' ''settings'']\<rparr>)"
  using assms
  by (simp add: getPaymentSettings_def await_eq prop_of_def js_or_def catch_log_def)

theorem getPaymentSettings_without_payment_witness:
  "scripted [ok (JObj [(''settings'', JObj [(''a'', JNum 1)])])]
     (SelectSingle ''app_settings'' ''settings'') =
     (ok (JObj [(''settings'', JObj [(''a'', JNum 1)])]), []) \<and>
   \<not> truthy (error (ok (JObj [(''settings'', JObj [(''a'', JNum 1)])]))) \<and>
   map_of [(''settings'', JObj [(''a'', JNum 1)])] ''settings'' = Some (JObj [(''a'', JNum 1)]) \<and>
   map_of [(''a'', JNum 1)] ''payment'' = None \<and>
   fst (getPaymentSettings scripted
          (fresh [ok (JObj [(''settings'', JObj [(''a'', JNum 1)])])])) = Inr (JObj [])"
  using getPaymentSettings_without_payment
    [of scripted "fresh [ok (JObj [(''settings'', JObj [(''a'', JNum 1)])])]"
        "ok (JObj [(''settings'', JObj [(''a'', JNum 1)])])" "[]"
        "[(''settings'', JObj [(''a'', JNum 1)])]" "[(''a'', JNum 1)]"]
  by (simp add: fresh_def ok_def)


lemma map_of_spread_object:
  "spread_with (JObj kvs) k x = JObj kvs' \<Longrightarrow> map_of kvs' = (map_of kvs)(k \<mapsto> x)"
  by (auto simp add: spread_with_def update_conv')

text \<open>Settings merge (C1): when the settings row is fetched without error and its
  \<^verbatim>\<open>settings\<close> value is an object, the run sends the fetch and then exactly one update of
  \<^verbatim>\<open>app_settings\<close> whose \<^verbatim>\<open>settings\<close> value is an object that maps \<^verbatim>\<open>payment\<close> to the new
  value as given and every other name to what the fetched object maps it to.\<close>

theorem updatePaymentSettings_replaces_payment_only:
  assumes "supabase (backend w) (SelectSingle ''app_settings'' ''settings'') = (current, b)"
    and "\<not> truthy (error current)"
    and "data current = JObj row"
    and "map_of row ''settings'' = Some (JObj sections)"
  shows "\<exists>written key.
           trace (snd (updatePaymentSettings supabase settings w)) =
             trace w @
             [SelectSingle ''app_settings'' ''settings'',
              Update ''app_settings'' (JObj [(''settings'', JObj written)]) ''id'' key] \<and>
           map_of written = (map_of sections)(''payment'' \<mapsto> settings)"
proof -
  obtain written where written:
    "spread_with (JObj sections) ''payment'' settings = JObj written"
    by (simp add: spread_with_def)
  obtain r b' where upd:
    "supabase b (Update ''app_settings'' (JObj [(''settings'', JObj written)]) ''id''
                   (prop_of row ''id'')) = (r, b')"
    by (cases "supabase b (Update ''app_settings'' (JObj [(''settings'', JObj written)]) ''id''
                   (prop_of row ''id''))")
  from assms written upd
  have "trace (snd (updatePaymentSettings supabase settings w)) =
          trace w @
          [SelectSingle ''app_settings'' ''settings'',
           Update ''app_settings'' (JObj [(''settings'', JObj written)]) ''id''
             (prop_of row ''id'')]"
    by (simp add: updatePaymentSettings_def await_eq prop_of_def catch_log_def
        console_error_def)
  with map_of_spread_object [OF written] show ?thesis
    by blast
qed

theorem updatePaymentSettings_replaces_payment_only_witness:
  "scripted
     [ok (JObj [(''settings'', JObj [(''a'', JNum 1), (''payment'', JObj [(''x'', JNum 1)])])]),
      ok JNull]
     (SelectSingle ''app_settings'' ''settings'') =
     (ok (JObj [(''settings'', JObj [(''a'', JNum 1), (''payment'', JObj [(''x'', JNum 1)])])]),
      [ok JNull]) \<and>
   \<not> truthy
       (error
         (ok (JObj [(''settings'',
                     JObj [(''a'', JNum 1), (''payment'', JObj [(''x'', JNum 1)])])]))) \<and>
   map_of [(''settings'', JObj [(''a'', JNum 1), (''payment'', JObj [(''x'', JNum 1)])])]
     ''settings'' = Some (JObj [(''a'', JNum 1), (''payment'', JObj [(''x'', JNum 1)])]) \<and>
   trace (snd (updatePaymentSettings scripted (JObj [(''y'', JNum 2)])
     (fresh
       [ok (JObj [(''settings'',
                   JObj [(''a'', JNum 1), (''payment'', JObj [(''x'', JNum 1)])])]),
        ok JNull]))) =
     [SelectSingle ''app_settings'' ''settings'',
      Update ''app_settings''
        (JObj [(''settings'', JObj [(''a'', JNum 1), (''payment'', JObj [(''y'', JNum 2)])])])
        ''id'' JUndefined]"
  using updatePaymentSettings_replaces_payment_only
    [of scripted
        "fresh
          [ok (JObj [(''settings'',
                      JObj [(''a'', JNum 1), (''payment'', JObj [(''x'', JNum 1)])])]),
           ok JNull]"
        "ok (JObj [(''settings'',
                    JObj [(''a'', JNum 1), (''payment'', JObj [(''x'', JNum 1)])])])"
        "[ok JNull]"
        "[(''settings'', JObj [(''a'', JNum 1), (''payment'', JObj [(''x'', JNum 1)])])]"
        "[(''a'', JNum 1), (''payment'', JObj [(''x'', JNum 1)])]"
        "JObj [(''y'', JNum 2)]"]
  by (simp add: updatePaymentSettings_def await_def fresh_def ok_def prop_of_def spread_with_def
      catch_log_def)

text \<open>The key of the update is the \<^verbatim>\<open>id\<close> property of the value the fetch returned.\<close>

lemma updatePaymentSettings_key:
  assumes "supabase (backend w) (SelectSingle ''app_settings'' ''settings'') = (current, b)"
    and "fst (updatePaymentSettings supabase settings w) = Inr v"
  shows "\<exists>values key.
           get_prop (data current) ''id'' = Inr key \<and>
           trace (snd (updatePaymentSettings supabase settings w)) =
             trace w @
             [SelectSingle ''app_settings'' ''settings'',
              Update ''app_settings'' values ''id'' key]"
  using assms
  by (auto simp add: updatePaymentSettings_def await_eq await_def catch_log_def console_error_def
      split: if_splits sum.splits prod.splits)

text \<open>Key of the write (C2): the fetch asks for the column \<^verbatim>\<open>settings\<close> alone. Against a
  backend that answers with that column alone, \<^verbatim>\<open>{settings: {a: 1, payment: {x: 1}}}\<close>, and
  accepts the update, the run returns \<^verbatim>\<open>true\<close> and its update is keyed by \<^verbatim>\<open>undefined\<close>.\<close>

theorem updatePaymentSettings_key_undefined:
  "updatePaymentSettings scripted (JObj [(''y'', JNum 2)])
     (fresh
       [ok (JObj [(''settings'', JObj [(''a'', JNum 1), (''payment'', JObj [(''x'', JNum 1)])])]),
        ok JNull]) =
   (Inr (JBool True),
    \<lparr>backend = [],
     trace =
       [SelectSingle ''app_settings'' ''settings'',
        Update ''app_settings''
          (JObj [(''settings'', JObj [(''a'', JNum 1), (''payment'', JObj [(''y'', JNum 2)])])])
          ''id'' JUndefined],
     console = []\<rparr>)"
  by (simp add: updatePaymentSettings_def await_def fresh_def ok_def prop_of_def spread_with_def
      catch_log_def)


section \<open>Listing wallets\<close>

lemma getVendorWallets_primary:
  assumes "supabase (backend w) (Rpc ''get_all_vendor_wallets'' JUndefined) = (r, b1)"
    and "\<not> truthy (error r)"
  shows "getVendorWallets supabase w =
           (Inr (js_or (data r) (JArr [])),
            w\<lparr>backend := b1, trace := trace w @ [Rpc ''get_all_vendor_wallets'' JUndefined]\<rparr>)"
  using assms by (simp add: getVendorWallets_def await_eq catch_log_def)

lemma getVendorWallets_fallback:
  assumes "supabase (backend w) (Rpc ''get_all_vendor_wallets'' JUndefined) = (r, b1)"
    and "truthy (error r)"
    and "supabase b1 (Select ''vendor_wallets'' ''*'') = (q, b2)"
    and "\<not> truthy (error q)"
  shows "getVendorWallets supabase w =
           (Inr (js_or (data q) (JArr [])),
            w\<lparr>backend := b2,
              trace := trace w @
                [Rpc ''get_all_vendor_wallets'' JUndefined, Select ''vendor_wallets'' ''*''],
              console := console w @ [(''Error using RPC function:'', Value (error r))]\<rparr>)"
  using assms by (simp add: getVendorWallets_def await_eq await_def console_error_def catch_log_def)

lemma getVendorWallets_fallback_failed:
  assumes "supabase (backend w) (Rpc ''get_all_vendor_wallets'' JUndefined) = (r, b1)"
    and "truthy (error r)"
    and "supabase b1 (Select ''vendor_wallets'' ''*'') = (q, b2)"
    and "truthy (error q)"
  shows "getVendorWallets supabase w =
           (Inl (Value (error q)),
            w\<lparr>backend := b2,
              trace := trace w @
                [Rpc ''get_all_vendor_wallets'' JUndefined, Select ''vendor_wallets'' ''*''],
              console := console w @
                [(''Error using RPC function:'', Value (error r)),
                 (''Error fetching vendor wallets:'', Value (error q))]\<rparr>)"
  using assms by (simp add: getVendorWallets_def await_eq await_def console_error_def catch_log_def)

lemma getVendorWallets_not_nullish:
  "fst (getVendorWallets supabase w) \<noteq> Inr JNull \<and> fst (getVendorWallets supabase w) \<noteq> Inr JUndefined"
  by (auto simp add: getVendorWallets_def await_def console_error_def catch_log_def js_or_def
      split: prod.splits)

lemma getDriverWallets_primary:
  assumes "supabase (backend w) (Rpc ''get_all_driver_wallets'' JUndefined) = (r, b1)"
    and "\<not> truthy (error r)"
  shows "getDriverWallets supabase w =
           (Inr (js_or (data r) (JArr [])),
            w\<lparr>backend := b1, trace := trace w @ [Rpc ''get_all_driver_wallets'' JUndefined]\<rparr>)"
  using assms by (simp add: getDriverWallets_def await_eq catch_log_def)

lemma getDriverWallets_fallback:
  assumes "supabase (backend w) (Rpc ''get_all_driver_wallets'' JUndefined) = (r, b1)"
    and "truthy (error r)"
    and "supabase b1 (Select ''driver_wallets'' ''*'') = (q, b2)"
    and "\<not> truthy (error q)"
  shows "getDriverWallets supabase w =
           (Inr (js_or (data q) (JArr [])),
            w\<lparr>backend := b2,
              trace := trace w @
                [Rpc ''get_all_driver_wallets'' JUndefined, Select ''driver_wallets'' ''*''],
              console := console w @ [(''Error using RPC function:'', Value (error r))]\<rparr>)"
  using assms by (simp add: getDriverWallets_def await_eq await_def console_error_def catch_log_def)

lemma getDriverWallets_fallback_failed:
  assumes "supabase (backend w) (Rpc ''get_all_driver_wallets'' JUndefined) = (r, b1)"
    and "truthy (error r)"
    and "supabase b1 (Select ''driver_wallets'' ''*'') = (q, b2)"
    and "truthy (error q)"
  shows "getDriverWallets supabase w =
           (Inl (Value (error q)),
            w\<lparr>backend := b2,
              trace := trace w @
                [Rpc ''get_all_driver_wallets'' JUndefined, Select ''driver_wallets'' ''*''],
              console := console w @
                [(''Error using RPC function:'', Value (error r)),
                 (''Error fetching driver wallets:'', Value (error q))]\<rparr>)"
  using assms by (simp add: getDriverWallets_def await_eq await_def console_error_def catch_log_def)

lemma getDriverWallets_not_nullish:
  "fst (getDriverWallets supabase w) \<noteq> Inr JNull \<and> fst (getDriverWallets supabase w) \<noteq> Inr JUndefined"
  by (auto simp add: getDriverWallets_def await_def console_error_def catch_log_def js_or_def
      split: prod.splits)

lemma js_or_rows: "js_or (JArr rows) d = JArr rows"
  by (simp add: js_or_def)

lemma js_or_null: "js_or JNull d = d"
  by (simp add: js_or_def)

text \<open>Fallback rows (C3): for \<^verbatim>\<open>getVendorWallets\<close> and \<^verbatim>\<open>getDriverWallets\<close>, when the procedure
  reports an error and the query on the collection reports none, the operation returns the
  rows of the query; when the answer that is used (the procedure's, if it reports no error,
  the query's otherwise) carries no rows, as the empty array or as \<^verbatim>\<open>null\<close>, the operation
  returns the empty array; and no run at all returns \<^verbatim>\<open>null\<close> or \<^verbatim>\<open>undefined\<close>.\<close>

theorem list_wallets_fallback_rows:
  assumes "truthy (error r)" and "\<not> truthy (error q)" and "\<not> truthy (error p)"
  shows
    "(supabase (backend w) (Rpc ''get_all_vendor_wallets'' JUndefined) = (r, b1) \<longrightarrow>
      supabase b1 (Select ''vendor_wallets'' ''*'') = (q, b2) \<longrightarrow>
        (data q = JArr rows \<longrightarrow> fst (getVendorWallets supabase w) = Inr (JArr rows)) \<and>
        (data q = JNull \<longrightarrow> fst (getVendorWallets supabase w) = Inr (JArr []))) \<and>
     (supabase (backend w) (Rpc ''get_all_driver_wallets'' JUndefined) = (r, b1) \<longrightarrow>
      supabase b1 (Select ''driver_wallets'' ''*'') = (q, b2) \<longrightarrow>
        (data q = JArr rows \<longrightarrow> fst (getDriverWallets supabase w) = Inr (JArr rows)) \<and>
        (data q = JNull \<longrightarrow> fst (getDriverWallets supabase w) = Inr (JArr []))) \<and>
     (supabase (backend w') (Rpc ''get_all_vendor_wallets'' JUndefined) = (p, b3) \<longrightarrow>
      data p = JArr [] \<or> data p = JNull \<longrightarrow>
        fst (getVendorWallets supabase w') = Inr (JArr [])) \<and>
     (supabase (backend w') (Rpc ''get_all_driver_wallets'' JUndefined) = (p, b3) \<longrightarrow>
      data p = JArr [] \<or> data p = JNull \<longrightarrow>
        fst (getDriverWallets supabase w') = Inr (JArr [])) \<and>
     fst (getVendorWallets supabase w) \<noteq> Inr JNull \<and>
     fst (getVendorWallets supabase w) \<noteq> Inr JUndefined \<and>
     fst (getDriverWallets supabase w) \<noteq> Inr JNull \<and>
     fst (getDriverWallets supabase w) \<noteq> Inr JUndefined"
proof -
  have vendor:
    "supabase (backend w) (Rpc ''get_all_vendor_wallets'' JUndefined) = (r, b1) \<longrightarrow>
     supabase b1 (Select ''vendor_wallets'' ''*'') = (q, b2) \<longrightarrow>
       (data q = JArr rows \<longrightarrow> fst (getVendorWallets supabase w) = Inr (JArr rows)) \<and>
       (data q = JNull \<longrightarrow> fst (getVendorWallets supabase w) = Inr (JArr []))"
    using assms(1,2) by (simp add: getVendorWallets_fallback js_or_rows js_or_null)
  have driver:
    "supabase (backend w) (Rpc ''get_all_driver_wallets'' JUndefined) = (r, b1) \<longrightarrow>
     supabase b1 (Select ''driver_wallets'' ''*'') = (q, b2) \<longrightarrow>
       (data q = JArr rows \<longrightarrow> fst (getDriverWallets supabase w) = Inr (JArr rows)) \<and>
       (data q = JNull \<longrightarrow> fst (getDriverWallets supabase w) = Inr (JArr []))"
    using assms(1,2) by (simp add: getDriverWallets_fallback js_or_rows js_or_null)
  have vendor_primary:
    "supabase (backend w') (Rpc ''get_all_vendor_wallets'' JUndefined) = (p, b3) \<longrightarrow>
     data p = JArr [] \<or> data p = JNull \<longrightarrow>
       fst (getVendorWallets supabase w') = Inr (JArr [])"
    using assms(3) by (auto simp add: getVendorWallets_primary js_or_rows js_or_null)
  have driver_primary:
    "supabase (backend w') (Rpc ''get_all_driver_wallets'' JUndefined) = (p, b3) \<longrightarrow>
     data p = JArr [] \<or> data p = JNull \<longrightarrow>
       fst (getDriverWallets supabase w') = Inr (JArr [])"
    using assms(3) by (auto simp add: getDriverWallets_primary js_or_rows js_or_null)
  from vendor driver vendor_primary driver_primary
    getVendorWallets_not_nullish [of supabase w] getDriverWallets_not_nullish [of supabase w]
  show ?thesis
    by blast
qed

theorem list_wallets_fallback_rows_witness:
  "truthy (error (failed (JStr ''no such function''))) \<and>
   \<not> truthy (error (ok (JArr [JObj [(''balance'', JNum 5)]]))) \<and>
   \<not> truthy (error (ok JNull)) \<and>
   scripted [failed (JStr ''no such function''), ok (JArr [JObj [(''balance'', JNum 5)]])]
     (Rpc ''get_all_vendor_wallets'' JUndefined) =
     (failed (JStr ''no such function''), [ok (JArr [JObj [(''balance'', JNum 5)]])]) \<and>
   scripted [ok (JArr [JObj [(''balance'', JNum 5)]])] (Select ''vendor_wallets'' ''*'') =
     (ok (JArr [JObj [(''balance'', JNum 5)]]), []) \<and>
   fst (getVendorWallets scripted
          (fresh [failed (JStr ''no such function''),
                  ok (JArr [JObj [(''balance'', JNum 5)]])])) =
     Inr (JArr [JObj [(''balance'', JNum 5)]]) \<and>
   fst (getDriverWallets scripted
          (fresh [failed (JStr ''no such function''),
                  ok (JArr [JObj [(''balance'', JNum 5)]])])) =
     Inr (JArr [JObj [(''balance'', JNum 5)]]) \<and>
   fst (getVendorWallets scripted (fresh [failed (JStr ''no such function''), ok JNull])) =
     Inr (JArr []) \<and>
   fst (getDriverWallets scripted (fresh [failed (JStr ''no such function''), ok JNull])) =
     Inr (JArr []) \<and>
   fst (getVendorWallets scripted (fresh [ok JNull])) = Inr (JArr []) \<and>
   fst (getDriverWallets scripted (fresh [ok JNull])) = Inr (JArr [])"
  using
    list_wallets_fallback_rows
      [of "failed (JStr ''no such function'')" "ok (JArr [JObj [(''balance'', JNum 5)]])"
          "ok JNull" scripted
          "fresh [failed (JStr ''no such function''), ok (JArr [JObj [(''balance'', JNum 5)]])]"
          "[ok (JArr [JObj [(''balance'', JNum 5)]])]" "[]" "[JObj [(''balance'', JNum 5)]]"
          "fresh [ok JNull]" "[]"]
    list_wallets_fallback_rows
      [of "failed (JStr ''no such function'')" "ok JNull" "ok JNull" scripted
          "fresh [failed (JStr ''no such function''), ok JNull]" "[ok JNull]" "[]" "[]"
          "fresh [ok JNull]" "[]"]
  by (simp add: fresh_def ok_def failed_def)

text \<open>One fallback hop (C6): for \<^verbatim>\<open>getVendorWallets\<close> and \<^verbatim>\<open>getDriverWallets\<close>, a run whose
  procedure call reports no error sends that call and nothing else; a run whose procedure
  call reports an error sends the call and then, to the backend as the call left it, the
  one query on the collection, and nothing else; and when the query reports an error too,
  the run fails with that error.\<close>

theorem list_wallets_one_fallback_hop:
  "(supabase (backend w) (Rpc ''get_all_vendor_wallets'' JUndefined) = (r, b1) \<longrightarrow>
      (\<not> truthy (error r) \<longrightarrow>
         trace (snd (getVendorWallets supabase w)) =
           trace w @ [Rpc ''get_all_vendor_wallets'' JUndefined] \<and>
         backend (snd (getVendorWallets supabase w)) = b1) \<and>
      (truthy (error r) \<longrightarrow> supabase b1 (Select ''vendor_wallets'' ''*'') = (q, b2) \<longrightarrow>
         trace (snd (getVendorWallets supabase w)) =
           trace w @ [Rpc ''get_all_vendor_wallets'' JUndefined, Select ''vendor_wallets'' ''*''] \<and>
         backend (snd (getVendorWallets supabase w)) = b2 \<and>
         (truthy (error q) \<longrightarrow> fst (getVendorWallets supabase w) = Inl (Value (error q))))) \<and>
   (supabase (backend w) (Rpc ''get_all_driver_wallets'' JUndefined) = (r, b1) \<longrightarrow>
      (\<not> truthy (error r) \<longrightarrow>
         trace (snd (getDriverWallets supabase w)) =
           trace w @ [Rpc ''get_all_driver_wallets'' JUndefined] \<and>
         backend (snd (getDriverWallets supabase w)) = b1) \<and>
      (truthy (error r) \<longrightarrow> supabase b1 (Select ''driver_wallets'' ''*'') = (q, b2) \<longrightarrow>
         trace (snd (getDriverWallets supabase w)) =
           trace w @ [Rpc ''get_all_driver_wallets'' JUndefined, Select ''driver_wallets'' ''*''] \<and>
         backend (snd (getDriverWallets supabase w)) = b2 \<and>
         (truthy (error q) \<longrightarrow> fst (getDriverWallets supabase w) = Inl (Value (error q)))))"
proof -
  have vendor:
    "supabase (backend w) (Rpc ''get_all_vendor_wallets'' JUndefined) = (r, b1) \<longrightarrow>
      (\<not> truthy (error r) \<longrightarrow>
         trace (snd (getVendorWallets supabase w)) =
           trace w @ [Rpc ''get_all_vendor_wallets'' JUndefined] \<and>
         backend (snd (getVendorWallets supabase w)) = b1) \<and>
      (truthy (error r) \<longrightarrow> supabase b1 (Select ''vendor_wallets'' ''*'') = (q, b2) \<longrightarrow>
         trace (snd (getVendorWallets supabase w)) =
           trace w @ [Rpc ''get_all_vendor_wallets'' JUndefined, Select ''vendor_wallets'' ''*''] \<and>
         backend (snd (getVendorWallets supabase w)) = b2 \<and>
         (truthy (error q) \<longrightarrow> fst (getVendorWallets supabase w) = Inl (Value (error q))))"
    by (cases "truthy (error q)")
      (simp_all add: getVendorWallets_primary getVendorWallets_fallback
        getVendorWallets_fallback_failed)
  have driver:
    "supabase (backend w) (Rpc ''get_all_driver_wallets'' JUndefined) = (r, b1) \<longrightarrow>
      (\<not> truthy (error r) \<longrightarrow>
         trace (snd (getDriverWallets supabase w)) =
           trace w @ [Rpc ''get_all_driver_wallets'' JUndefined] \<and>
         backend (snd (getDriverWallets supabase w)) = b1) \<and>
      (truthy (error r) \<longrightarrow> supabase b1 (Select ''driver_wallets'' ''*'') = (q, b2) \<longrightarrow>
         trace (snd (getDriverWallets supabase w)) =
           trace w @ [Rpc ''get_all_driver_wallets'' JUndefined, Select ''driver_wallets'' ''*''] \<and>
         backend (snd (getDriverWallets supabase w)) = b2 \<and>
         (truthy (error q) \<longrightarrow> fst (getDriverWallets supabase w) = Inl (Value (error q))))"
    by (cases "truthy (error q)")
      (simp_all add: getDriverWallets_primary getDriverWallets_fallback
        getDriverWallets_fallback_failed)
  from vendor driver show ?thesis
    by blast
qed

theorem list_wallets_one_fallback_hop_witness:
  "\<not> truthy (error (ok (JArr []))) \<and>
   truthy (error (failed (JStr ''no such function''))) \<and>
   truthy (error (failed (JStr ''no such table''))) \<and>
   getVendorWallets scripted (fresh [ok (JArr []), ok (JArr [])]) =
     (Inr (JArr []),
      \<lparr>backend = [ok (JArr [])], trace = [Rpc ''get_all_vendor_wallets'' JUndefined],
       console = []\<rparr>) \<and>
   trace (snd (getVendorWallets scripted
     (fresh [failed (JStr ''no such function''), failed (JStr ''no such table''),
             ok (JArr [])]))) =
     [Rpc ''get_all_vendor_wallets'' JUndefined, Select ''vendor_wallets'' ''*''] \<and>
   backend (snd (getVendorWallets scripted
     (fresh [failed (JStr ''no such function''), failed (JStr ''no such table''),
             ok (JArr [])]))) = [ok (JArr [])] \<and>
   fst (getVendorWallets scripted
     (fresh [failed (JStr ''no such function''), failed (JStr ''no such table''),
             ok (JArr [])])) = Inl (Value (JStr ''no such table'')) \<and>
   trace (snd (getDriverWallets scripted
     (fresh [failed (JStr ''no such function''), failed (JStr ''no such table''),
             ok (JArr [])]))) =
     [Rpc ''get_all_driver_wallets'' JUndefined, Select ''driver_wallets'' ''*''] \<and>
   fst (getDriverWallets scripted
     (fresh [failed (JStr ''no such function''), failed (JStr ''no such table''),
             ok (JArr [])])) = Inl (Value (JStr ''no such table''))"
  using
    list_wallets_one_fallback_hop
      [of scripted "fresh [ok (JArr []), ok (JArr [])]" "ok (JArr [])" "[ok (JArr [])]"
          "ok (JArr [])" "[]"]
    list_wallets_one_fallback_hop
      [of scripted
          "fresh [failed (JStr ''no such function''), failed (JStr ''no such table''),
                  ok (JArr [])]"
          "failed (JStr ''no such function'')" "[failed (JStr ''no such table''), ok (JArr [])]"
          "failed (JStr ''no such table'')" "[ok (JArr [])]"]
  by (simp add: fresh_def ok_def failed_def getVendorWallets_def await_def js_or_def
      catch_log_def)

section \<open>Success and failure of every operation\<close>

text \<open>Payload on success (C4), as the code has it: when the procedure call reports no
  error, \<^verbatim>\<open>getWalletBalance\<close>, \<^verbatim>\<open>getWalletTransactions\<close>, \<^verbatim>\<open>chargeVendorWallet\<close>,
  \<^verbatim>\<open>chargeDriverWallet\<close>, \<^verbatim>\<open>getFinancialStats\<close>, \<^verbatim>\<open>getVendorWallet\<close> and \<^verbatim>\<open>getDriverWallet\<close>
  return the payload as it is, whatever it is; \<^verbatim>\<open>getVendorWallets\<close> and \<^verbatim>\<open>getDriverWallets\<close>
  return the payload as it is when it is truthy (every array is) and the empty array when
  it is \<^verbatim>\<open>null\<close> or another falsy value. Omitted options of \<^verbatim>\<open>getWalletTransactions\<close> are
  the empty options object.\<close>

theorem procedure_success_payload:
  assumes "\<not> truthy (error r)"
  shows
    "getWalletTransactions supabase walletId JUndefined w =
       getWalletTransactions supabase walletId (JObj []) w \<and>
     (supabase (backend w)
        (Rpc ''get_wallet_balance''
           (JObj [(''p_user_id'', userId)])) = (r, b) \<longrightarrow>
      fst (getWalletBalance supabase userId w) = Inr (data r)) \<and>
     (supabase (backend w)
        (Rpc ''get_wallet_transactions''
           (JObj [(''p_wallet_id'', walletId),
                (''p_limit'', js_or (prop_of options ''limit'') (JNum 10)),
                (''p_offset'', js_or (prop_of options ''offset'') (JNum 0)),
                (''p_type'', js_or (prop_of options ''type'') JNull),
                (''p_status'', js_or (prop_of options ''status'') JNull)])) = (r, b) \<longrightarrow>
      fst (getWalletTransactions supabase walletId (JObj options) w) = Inr (data r)) \<and>
     (supabase (backend w)
        (Rpc ''charge_vendor_wallet''
           (JObj [(''p_vendor_id'', vendorId), (''p_amount'', amount),
                (''p_description'', default_param description (JStr default_description))])) = (r, b) \<longrightarrow>
      fst (chargeVendorWallet supabase vendorId amount description w) = Inr (data r)) \<and>
     (supabase (backend w)
        (Rpc ''charge_driver_wallet''
           (JObj [(''p_driver_id'', driverId), (''p_amount'', amount),
                (''p_description'', default_param description (JStr default_description))])) = (r, b) \<longrightarrow>
      fst (chargeDriverWallet supabase driverId amount description w) = Inr (data r)) \<and>
     (supabase (backend w)
        (Rpc ''get_financial_summary''
           JUndefined) = (r, b) \<longrightarrow>
      fst (getFinancialStats supabase w) = Inr (data r)) \<and>
     (supabase (backend w)
        (Rpc ''get_vendor_wallet''
           (JObj [(''p_vendor_id'', vendorId)])) = (r, b) \<longrightarrow>
      fst (getVendorWallet supabase vendorId w) = Inr (data r)) \<and>
     (supabase (backend w)
        (Rpc ''get_driver_wallet''
           (JObj [(''p_driver_id'', driverId)])) = (r, b) \<longrightarrow>
      fst (getDriverWallet supabase driverId w) = Inr (data r)) \<and>
     (supabase (backend w) (Rpc ''get_all_vendor_wallets'' JUndefined) = (r, b) \<longrightarrow>
      fst (getVendorWallets supabase w) = Inr (if truthy (data r) then data r else JArr [])) \<and>
     (supabase (backend w) (Rpc ''get_all_driver_wallets'' JUndefined) = (r, b) \<longrightarrow>
      fst (getDriverWallets supabase w) = Inr (if truthy (data r) then data r else JArr []))"
  using assms
  by (simp add: getWalletBalance_def chargeVendorWallet_def chargeDriverWallet_def getFinancialStats_def getVendorWallet_def getDriverWallet_def
      getWalletTransactions_omitted_options getWalletTransactions_object rpc_success
      getVendorWallets_primary getDriverWallets_primary js_or_def)

theorem procedure_success_payload_witness:
  "\<not> truthy (error (ok JNull)) \<and>
   scripted [ok JNull] (Rpc ''get_wallet_balance'' (JObj [(''p_user_id'', JStr ''U1'')])) =
     (ok JNull, []) \<and>
   scripted [ok JNull] (Rpc ''get_all_vendor_wallets'' JUndefined) = (ok JNull, []) \<and>
   fst (getWalletBalance scripted (JStr ''U1'') (fresh [ok JNull])) = Inr JNull \<and>
   fst (getWalletTransactions scripted (JStr ''W1'') (JObj []) (fresh [ok JNull])) = Inr JNull \<and>
   fst (chargeVendorWallet scripted (JStr ''V1'') (JNum 50) JUndefined (fresh [ok JNull])) =
     Inr JNull \<and>
   fst (chargeDriverWallet scripted (JStr ''D1'') (JNum 50) JUndefined (fresh [ok JNull])) =
     Inr JNull \<and>
   fst (getFinancialStats scripted (fresh [ok JNull])) = Inr JNull \<and>
   fst (getVendorWallet scripted (JStr ''V1'') (fresh [ok JNull])) = Inr JNull \<and>
   fst (getDriverWallet scripted (JStr ''D1'') (fresh [ok JNull])) = Inr JNull \<and>
   fst (getVendorWallets scripted (fresh [ok JNull])) = Inr (JArr []) \<and>
   fst (getDriverWallets scripted (fresh [ok JNull])) = Inr (JArr [])"
  using procedure_success_payload
    [where r = "ok JNull" and supabase = scripted and w = "fresh [ok JNull]" and b = "[]"
       and userId = "JStr ''U1''" and walletId = "JStr ''W1''" and options = "[]"
       and vendorId = "JStr ''V1''" and driverId = "JStr ''D1''" and amount = "JNum 50"
       and description = JUndefined]
  by (simp add: fresh_def ok_def)

text \<open>The claim as the specification states it fails for \<^verbatim>\<open>getVendorWallets\<close>: the
  procedure call reports no error and the payload \<^verbatim>\<open>null\<close>, and the operation returns the
  empty array, not the payload.\<close>

theorem getVendorWallets_null_payload:
  "\<not> truthy (error (ok JNull)) \<and>
   scripted [ok JNull] (Rpc ''get_all_vendor_wallets'' JUndefined) = (ok JNull, []) \<and>
   fst (getVendorWallets scripted (fresh [ok JNull])) = Inr (JArr []) \<and>
   fst (getVendorWallets scripted (fresh [ok JNull])) \<noteq> Inr (data (ok JNull))"
  by (simp add: getVendorWallets_def await_def fresh_def ok_def js_or_def catch_log_def)

lemma getPaymentSettings_fetch_failed:
  assumes "supabase (backend w) (SelectSingle ''app_settings'' ''settings'') = (r, b)"
    and "truthy (error r)"
  shows "getPaymentSettings supabase w =
           (Inl (Value (error r)),
            w\<lparr>backend := b, trace := trace w @ [SelectSingle ''app_settings'' ''settings''],
              console := console w @ [(''Error fetching payment settings:'', Value (error r))]\<rparr>)"
  using assms by (simp add: getPaymentSettings_def await_eq catch_log_def console_error_def)

lemma updatePaymentSettings_fetch_failed:
  assumes "supabase (backend w) (SelectSingle ''app_settings'' ''settings'') = (r, b)"
    and "truthy (error r)"
  shows "updatePaymentSettings supabase settings w =
           (Inl (Value (error r)),
            w\<lparr>backend := b, trace := trace w @ [SelectSingle ''app_settings'' ''settings''],
              console := console w @ [(''Error updating payment settings:'', Value (error r))]\<rparr>)"
  using assms by (simp add: updatePaymentSettings_def await_eq catch_log_def console_error_def)

lemma updatePaymentSettings_write_failed:
  assumes "supabase (backend w) (SelectSingle ''app_settings'' ''settings'') = (current, b')"
    and "\<not> truthy (error current)"
    and "data current = JObj row"
    and "supabase b'
           (Update ''app_settings''
              (JObj [(''settings'', spread_with (prop_of row ''settings'') ''payment'' settings)])
              ''id'' (prop_of row ''id'')) = (r, b)"
    and "truthy (error r)"
  shows "updatePaymentSettings supabase settings w =
           (Inl (Value (error r)),
            w\<lparr>backend := b,
              trace := trace w @
                [SelectSingle ''app_settings'' ''settings'',
                 Update ''app_settings''
                   (JObj [(''settings'',
                           spread_with (prop_of row ''settings'') ''payment'' settings)])
                   ''id'' (prop_of row ''id'')],
              console := console w @ [(''Error updating payment settings:'', Value (error r))]\<rparr>)"
  using assms
  by (simp add: updatePaymentSettings_def await_eq await_def catch_log_def console_error_def)

text \<open>Failure (C5): in every operation, when the backend call that decides the run (the
  only call; for the two list operations the collection query after a failed procedure
  call; for \<^verbatim>\<open>updatePaymentSettings\<close> the fetch, or the update after a good fetch) reports
  an error, the run ends by throwing that very error value and returns no payload, and
  the last line it has written to the console is the operation's own message together
  with that error. The eleven messages are pairwise different, so the line tells which
  operation failed. Omitted options of \<^verbatim>\<open>getWalletTransactions\<close> are the empty options
  object.\<close>

theorem backend_failure_logged_and_rethrown:
  assumes "truthy (error r)"
  shows
    "getWalletTransactions supabase walletId JUndefined w =
       getWalletTransactions supabase walletId (JObj []) w \<and>
     (supabase (backend w)
        (Rpc ''get_wallet_balance''
           (JObj [(''p_user_id'', userId)])) = (r, b) \<longrightarrow>
      fst (getWalletBalance supabase userId w) = Inl (Value (error r)) \<and>
      console (snd (getWalletBalance supabase userId w)) =
        console w @ [(''Error fetching wallet balance:'', Value (error r))]) \<and>
     (supabase (backend w)
        (Rpc ''get_wallet_transactions''
           (JObj [(''p_wallet_id'', walletId),
                (''p_limit'', js_or (prop_of options ''limit'') (JNum 10)),
                (''p_offset'', js_or (prop_of options ''offset'') (JNum 0)),
                (''p_type'', js_or (prop_of options ''type'') JNull),
                (''p_status'', js_or (prop_of options ''status'') JNull)])) = (r, b) \<longrightarrow>
      fst (getWalletTransactions supabase walletId (JObj options) w) = Inl (Value (error r)) \<and>
      console (snd (getWalletTransactions supabase walletId (JObj options) w)) =
        console w @ [(''Error fetching wallet transactions:'', Value (error r))]) \<and>
     (supabase (backend w)
        (Rpc ''charge_vendor_wallet''
           (JObj [(''p_vendor_id'', vendorId), (''p_amount'', amount),
                (''p_description'', default_param description (JStr default_description))])) = (r, b) \<longrightarrow>
      fst (chargeVendorWallet supabase vendorId amount description w) = Inl (Value (error r)) \<and>
      console (snd (chargeVendorWallet supabase vendorId amount description w)) =
        console w @ [(''Error charging vendor wallet:'', Value (error r))]) \<and>
     (supabase (backend w)
        (Rpc ''charge_driver_wallet''
           (JObj [(''p_driver_id'', driverId), (''p_amount'', amount),
                (''p_description'', default_param description (JStr default_description))])) = (r, b) \<longrightarrow>
      fst (chargeDriverWallet supabase driverId amount description w) = Inl (Value (error r)) \<and>
      console (snd (chargeDriverWallet supabase driverId amount description w)) =
        console w @ [(''Error charging driver wallet:'', Value (error r))]) \<and>
     (supabase (backend w)
        (Rpc ''get_financial_summary''
           JUndefined) = (r, b) \<longrightarrow>
      fst (getFinancialStats supabase w) = Inl (Value (error r)) \<and>
      console (snd (getFinancialStats supabase w)) =
        console w @ [(''Error fetching financial stats:'', Value (error r))]) \<and>
     (supabase (backend w)
        (Rpc ''get_vendor_wallet''
           (JObj [(''p_vendor_id'', vendorId)])) = (r, b) \<longrightarrow>
      fst (getVendorWallet supabase vendorId w) = Inl (Value (error r)) \<and>
      console (snd (getVendorWallet supabase vendorId w)) =
        console w @ [(''Error fetching vendor wallet:'', Value (error r))]) \<and>
     (supabase (backend w)
        (Rpc ''get_driver_wallet''
           (JObj [(''p_driver_id'', driverId)])) = (r, b) \<longrightarrow>
      fst (getDriverWallet supabase driverId w) = Inl (Value (error r)) \<and>
      console (snd (getDriverWallet supabase driverId w)) =
        console w @ [(''Error fetching driver wallet:'', Value (error r))]) \<and>
     (supabase (backend w) (Rpc ''get_all_vendor_wallets'' JUndefined) = (p, b') \<longrightarrow> truthy (error p) \<longrightarrow>
      supabase b' (Select ''vendor_wallets'' ''*'') = (r, b) \<longrightarrow>
      fst (getVendorWallets supabase w) = Inl (Value (error r)) \<and>
      console (snd (getVendorWallets supabase w)) =
        console w @ [(''Error using RPC function:'', Value (error p)),
                     (''Error fetching vendor wallets:'', Value (error r))]) \<and>
     (supabase (backend w) (Rpc ''get_all_driver_wallets'' JUndefined) = (p, b') \<longrightarrow> truthy (error p) \<longrightarrow>
      supabase b' (Select ''driver_wallets'' ''*'') = (r, b) \<longrightarrow>
      fst (getDriverWallets supabase w) = Inl (Value (error r)) \<and>
      console (snd (getDriverWallets supabase w)) =
        console w @ [(''Error using RPC function:'', Value (error p)),
                     (''Error fetching driver wallets:'', Value (error r))]) \<and>
     (supabase (backend w) (SelectSingle ''app_settings'' ''settings'') = (r, b) \<longrightarrow>
      fst (getPaymentSettings supabase w) = Inl (Value (error r)) \<and>
      console (snd (getPaymentSettings supabase w)) =
        console w @ [(''Error fetching payment settings:'', Value (error r))]) \<and>
     (supabase (backend w) (SelectSingle ''app_settings'' ''settings'') = (r, b) \<longrightarrow>
      fst (updatePaymentSettings supabase settings w) = Inl (Value (error r)) \<and>
      console (snd (updatePaymentSettings supabase settings w)) =
        console w @ [(''Error updating payment settings:'', Value (error r))]) \<and>
     (supabase (backend w) (SelectSingle ''app_settings'' ''settings'') = (current, b') \<longrightarrow>
      \<not> truthy (error current) \<longrightarrow> data current = JObj row \<longrightarrow>
      supabase b'
        (Update ''app_settings''
           (JObj [(''settings'', spread_with (prop_of row ''settings'') ''payment'' settings)])
           ''id'' (prop_of row ''id'')) = (r, b) \<longrightarrow>
      fst (updatePaymentSettings supabase settings w) = Inl (Value (error r)) \<and>
      console (snd (updatePaymentSettings supabase settings w)) =
        console w @ [(''Error updating payment settings:'', Value (error r))]) \<and>
     distinct
       [''Error fetching wallet balance:'',
        ''Error fetching wallet transactions:'',
        ''Error fetching vendor wallets:'',
        ''Error fetching driver wallets:'',
        ''Error charging vendor wallet:'',
        ''Error charging driver wallet:'',
        ''Error fetching financial stats:'',
        ''Error fetching payment settings:'',
        ''Error updating payment settings:'',
        ''Error fetching vendor wallet:'',
        ''Error fetching driver wallet:'']"
proof -
  have messages:
    "distinct
       [''Error fetching wallet balance:'',
        ''Error fetching wallet transactions:'',
        ''Error fetching vendor wallets:'',
        ''Error fetching driver wallets:'',
        ''Error charging vendor wallet:'',
        ''Error charging driver wallet:'',
        ''Error fetching financial stats:'',
        ''Error fetching payment settings:'',
        ''Error updating payment settings:'',
        ''Error fetching vendor wallet:'',
        ''Error fetching driver wallet:'']"
    by simp
  from assms messages show ?thesis
    by (simp add: getWalletBalance_def chargeVendorWallet_def chargeDriverWallet_def getFinancialStats_def getVendorWallet_def getDriverWallet_def
        getWalletTransactions_omitted_options getWalletTransactions_object rpc_failure
        getVendorWallets_fallback_failed
        getDriverWallets_fallback_failed getPaymentSettings_fetch_failed
        updatePaymentSettings_fetch_failed updatePaymentSettings_write_failed)
qed

theorem backend_failure_logged_and_rethrown_witness:
  "truthy (error (failed (JStr ''down''))) \<and>
   truthy (error (failed (JStr ''no such function''))) \<and>
   \<not> truthy (error (ok (JObj [(''settings'', JObj [])]))) \<and>
   fst (getWalletBalance scripted (JStr ''U1'')
          (fresh [failed (JStr ''down'')])) = Inl (Value (JStr ''down'')) \<and>
   console (snd (getWalletBalance scripted (JStr ''U1'')
          (fresh [failed (JStr ''down'')]))) =
     [(''Error fetching wallet balance:'', Value (JStr ''down''))] \<and>
   fst (getWalletTransactions scripted (JStr ''W1'') (JObj [])
          (fresh [failed (JStr ''down'')])) = Inl (Value (JStr ''down'')) \<and>
   console (snd (getWalletTransactions scripted (JStr ''W1'') (JObj [])
          (fresh [failed (JStr ''down'')]))) =
     [(''Error fetching wallet transactions:'', Value (JStr ''down''))] \<and>
   fst (chargeVendorWallet scripted (JStr ''V1'') (JNum 50) JUndefined
          (fresh [failed (JStr ''down'')])) = Inl (Value (JStr ''down'')) \<and>
   console (snd (chargeVendorWallet scripted (JStr ''V1'') (JNum 50) JUndefined
          (fresh [failed (JStr ''down'')]))) =
     [(''Error charging vendor wallet:'', Value (JStr ''down''))] \<and>
   fst (chargeDriverWallet scripted (JStr ''D1'') (JNum 50) JUndefined
          (fresh [failed (JStr ''down'')])) = Inl (Value (JStr ''down'')) \<and>
   console (snd (chargeDriverWallet scripted (JStr ''D1'') (JNum 50) JUndefined
          (fresh [failed (JStr ''down'')]))) =
     [(''Error charging driver wallet:'', Value (JStr ''down''))] \<and>
   fst (getFinancialStats scripted
          (fresh [failed (JStr ''down'')])) = Inl (Value (JStr ''down'')) \<and>
   console (snd (getFinancialStats scripted
          (fresh [failed (JStr ''down'')]))) =
     [(''Error fetching financial stats:'', Value (JStr ''down''))] \<and>
   fst (getVendorWallet scripted (JStr ''V1'')
          (fresh [failed (JStr ''down'')])) = Inl (Value (JStr ''down'')) \<and>
   console (snd (getVendorWallet scripted (JStr ''V1'')
          (fresh [failed (JStr ''down'')]))) =
     [(''Error fetching vendor wallet:'', Value (JStr ''down''))] \<and>
   fst (getDriverWallet scripted (JStr ''D1'')
          (fresh [failed (JStr ''down'')])) = Inl (Value (JStr ''down'')) \<and>
   console (snd (getDriverWallet scripted (JStr ''D1'')
          (fresh [failed (JStr ''down'')]))) =
     [(''Error fetching driver wallet:'', Value (JStr ''down''))] \<and>
   fst (getPaymentSettings scripted
          (fresh [failed (JStr ''down'')])) = Inl (Value (JStr ''down'')) \<and>
   console (snd (getPaymentSettings scripted
          (fresh [failed (JStr ''down'')]))) =
     [(''Error fetching payment settings:'', Value (JStr ''down''))] \<and>
   fst (updatePaymentSettings scripted (JObj [])
          (fresh [failed (JStr ''down'')])) = Inl (Value (JStr ''down'')) \<and>
   console (snd (updatePaymentSettings scripted (JObj [])
          (fresh [failed (JStr ''down'')]))) =
     [(''Error updating payment settings:'', Value (JStr ''down''))] \<and>
   fst (getVendorWallets scripted
          (fresh [failed (JStr ''no such function''), failed (JStr ''down'')])) =
     Inl (Value (JStr ''down'')) \<and>
   console (snd (getVendorWallets scripted
          (fresh [failed (JStr ''no such function''), failed (JStr ''down'')]))) =
     [(''Error using RPC function:'', Value (JStr ''no such function'')),
      (''Error fetching vendor wallets:'', Value (JStr ''down''))] \<and>
   fst (getDriverWallets scripted
          (fresh [failed (JStr ''no such function''), failed (JStr ''down'')])) =
     Inl (Value (JStr ''down'')) \<and>
   console (snd (getDriverWallets scripted
          (fresh [failed (JStr ''no such function''), failed (JStr ''down'')]))) =
     [(''Error using RPC function:'', Value (JStr ''no such function'')),
      (''Error fetching driver wallets:'', Value (JStr ''down''))] \<and>
   fst (updatePaymentSettings scripted (JObj [])
          (fresh [ok (JObj [(''settings'', JObj [])]), failed (JStr ''down'')])) =
     Inl (Value (JStr ''down'')) \<and>
   console (snd (updatePaymentSettings scripted (JObj [])
          (fresh [ok (JObj [(''settings'', JObj [])]), failed (JStr ''down'')]))) =
     [(''Error updating payment settings:'', Value (JStr ''down''))]"
  using
    backend_failure_logged_and_rethrown
      [where r = "failed (JStr ''down'')" and supabase = scripted
         and w = "fresh [failed (JStr ''down'')]" and b = "[]"
         and p = "failed (JStr ''down'')" and b' = "[]"
         and current = "failed (JStr ''down'')" and row = "[]"
         and userId = "JStr ''U1''" and walletId = "JStr ''W1''" and options = "[]"
         and vendorId = "JStr ''V1''" and driverId = "JStr ''D1''" and amount = "JNum 50"
         and description = JUndefined and settings = "JObj []"]
    backend_failure_logged_and_rethrown
      [where r = "failed (JStr ''down'')" and supabase = scripted
         and w = "fresh [failed (JStr ''no such function''), failed (JStr ''down'')]"
         and b = "[]" and p = "failed (JStr ''no such function'')"
         and b' = "[failed (JStr ''down'')]"
         and current = "failed (JStr ''no such function'')" and row = "[]"
         and userId = "JStr ''U1''" and walletId = "JStr ''W1''" and options = "[]"
         and vendorId = "JStr ''V1''" and driverId = "JStr ''D1''" and amount = "JNum 50"
         and description = JUndefined and settings = "JObj []"]
    backend_failure_logged_and_rethrown
      [where r = "failed (JStr ''down'')" and supabase = scripted
         and w = "fresh [ok (JObj [(''settings'', JObj [])]), failed (JStr ''down'')]"
         and b = "[]" and current = "ok (JObj [(''settings'', JObj [])])"
         and b' = "[failed (JStr ''down'')]" and row = "[(''settings'', JObj [])]"
         and p = "ok (JObj [(''settings'', JObj [])])"
         and userId = "JStr ''U1''" and walletId = "JStr ''W1''" and options = "[]"
         and vendorId = "JStr ''V1''" and driverId = "JStr ''D1''" and amount = "JNum 50"
         and description = JUndefined and settings = "JObj []"]
  by (simp add: fresh_def ok_def failed_def prop_of_def spread_with_def)

end
